theory Spec2Isabelle
  imports Complex_Main "HOL-Library.Multiset" "HOL-Library.Sublist"
begin

section \<open>CPUMonitorPy: the sampler, its windows and the export (src/main.py)\<close>

text \<open>
  Conventions of the embedding.
  \<^item> Python floats are modelled as \<open>real\<close>: every reading handled here is a finite number
    delivered by the platform library, and \<open>statistics.mean\<close> sums exactly before it
    divides, so no rounding takes part in the properties below. NaN and the infinities
    are outside the model.
  \<^item> \<open>datetime.now()\<close> and \<open>time.time()\<close> are inputs: a point in time is a \<open>real\<close>
    (seconds), a formatted timestamp is a \<open>string\<close>.
  \<^item> A raised exception is the \<open>Inl\<close> branch of a sum.
  \<^item> The format specification \<open>:.1f\<close> is a parameter \<open>fmt1\<close> of the functions that use it.
\<close>

subsection \<open>Configuration\<close>

record Thresholds =
  cpu_warn :: real
  cpu_crit :: real
  temp_warn :: real
  temp_crit :: real

record Settings =
  sample_interval_sec :: real
  temp_sample_interval_sec :: real
  window_duration_sec :: real
  progress_bar_width :: int
  cpu_sensor_keys :: "string list"

definition THRESHOLDS :: Thresholds where
  "THRESHOLDS = \<lparr>cpu_warn = 70, cpu_crit = 90, temp_warn = 70, temp_crit = 85\<rparr>"

definition SETTINGS :: Settings where
  "SETTINGS = \<lparr>sample_interval_sec = 0.5, temp_sample_interval_sec = 2,
     window_duration_sec = 10, progress_bar_width = 40,
     cpu_sensor_keys = [''coretemp'', ''cpu_thermal'', ''k10temp'', ''acpitz'']\<rparr>"

subsection \<open>Errors\<close>

datatype error = StatisticsError | PlatformError string

fun error_str :: "error \<Rightarrow> string" where
  "error_str StatisticsError = ''mean requires at least one data point''"
| "error_str (PlatformError msg) = msg"

subsection \<open>collections.deque with a maximum length\<close>

record 'a deque =
  maxlen :: nat
  items :: "'a list"

text \<open>Python's \<open>int(x)\<close> on a float truncates toward zero.\<close>

definition py_int :: "real \<Rightarrow> int" where
  "py_int x = (if 0 \<le> x then \<lfloor>x\<rfloor> else \<lceil>x\<rceil>)"

text \<open>
  \<open>deque(maxlen=int(window / interval))\<close>. The quotients of the frozen settings are 20
  and 5 (lemmas \<open>cpu_capacity\<close> and \<open>temp_capacity\<close> below), so neither the division
  nor the constructor (which rejects a negative \<open>maxlen\<close>) can raise here.
\<close>

definition window_capacity :: "real \<Rightarrow> nat" where
  "window_capacity interval = nat (py_int (window_duration_sec SETTINGS / interval))"

definition deque_new :: "nat \<Rightarrow> 'a deque" where
  "deque_new n = \<lparr>maxlen = n, items = []\<rparr>"

text \<open>
  \<open>append\<close> on a bounded deque: the element is added on the right and, when the length
  then exceeds \<open>maxlen\<close>, one element is removed on the left.
\<close>

definition deque_append :: "'a deque \<Rightarrow> 'a \<Rightarrow> 'a deque" where
  "deque_append d x =
     (let ys = items d @ [x]
      in d\<lparr>items := (if maxlen d < length ys then tl ys else ys)\<rparr>)"

subsection \<open>The threshold classifier\<close>

definition colorize :: "(real \<Rightarrow> string) \<Rightarrow> real \<Rightarrow> real \<Rightarrow> real \<Rightarrow> string \<Rightarrow> string" where
  "colorize fmt1 val warn crit unit_str =
     (let color = (if val \<ge> crit then ''red''
                   else if val \<ge> warn then ''yellow''
                   else ''green'')
      in ''['' @ color @ '']'' @ fmt1 val @ unit_str @ ''[/'' @ color @ '']'')"

subsection \<open>The metric source, as the sampler sees it\<close>

record shwtemp =
  label :: string
  current :: real

record scpufreq =
  freq_current :: real
  freq_min :: real
  freq_max :: real

type_synonym sensor_table = "string \<rightharpoonup> shwtemp list"

text \<open>
  What the platform would answer during one tick, were it asked. A read that the tick
  never reaches is not performed; \<open>sample\<close> reports the calls it made.
\<close>

record tick_env =
  now_str :: string
  cpu_percent :: "error + real"
  cpu_freq :: "error + scpufreq option"
  getloadavg :: "error + (real \<times> real \<times> real)"
  time_now :: real
  sensors_temperatures :: "error + sensor_table"

datatype call = Call_cpu_percent | Call_cpu_freq | Call_getloadavg | Call_sensors_temperatures

subsection \<open>Strings: \<open>str.lower\<close> and \<open>in\<close>\<close>

definition lower_char :: "char \<Rightarrow> char" where
  "lower_char c =
     (case map_of (zip ''ABCDEFGHIJKLMNOPQRSTUVWXYZ'' ''abcdefghijklmnopqrstuvwxyz'') c of
        Some d \<Rightarrow> d
      | None \<Rightarrow> c)"

definition lower :: "string \<Rightarrow> string" where
  "lower s = map lower_char s"

fun contains :: "string \<Rightarrow> string \<Rightarrow> bool" where
  "contains sub [] = (sub = [])"
| "contains sub (c # cs) = (prefix sub (c # cs) \<or> contains sub cs)"

subsection \<open>The monitor\<close>

record CPUMonitor =
  cpu_samples :: "real deque"
  temp_samples :: "real deque"
  freq_samples :: "real deque"
  load_samples :: "(real \<times> real \<times> real) deque"
  last_temp_time :: real
  running :: bool
  sensor_key :: "string option"
  start_time :: real
  end_time :: "real option"
  timestamps :: "string deque"

definition init :: "real \<Rightarrow> CPUMonitor" where
  "init now =
     \<lparr>cpu_samples = deque_new (window_capacity (sample_interval_sec SETTINGS)),
      temp_samples = deque_new (window_capacity (temp_sample_interval_sec SETTINGS)),
      freq_samples = deque_new (window_capacity (sample_interval_sec SETTINGS)),
      load_samples = deque_new (window_capacity (sample_interval_sec SETTINGS)),
      last_temp_time = 0,
      running = True,
      sensor_key = None,
      start_time = now,
      end_time = None,
      timestamps = deque_new (window_capacity (sample_interval_sec SETTINGS))\<rparr>"

definition detect_sensor_key :: "error + sensor_table \<Rightarrow> string option" where
  "detect_sensor_key r =
     (case r of
        Inl e \<Rightarrow> None
      | Inr temps \<Rightarrow> find (\<lambda>key. temps key \<noteq> None) (cpu_sensor_keys SETTINGS))"

definition label_matches :: "shwtemp \<Rightarrow> bool" where
  "label_matches t =
     (label t \<noteq> [] \<and>
      (contains ''package'' (lower (label t)) \<or> contains ''core 0'' (lower (label t))))"

text \<open>
  \<open>a or b\<close> on an optional float: \<open>None\<close> and \<open>0.0\<close> are the falsy values, for which the
  right operand is the result.
\<close>

definition py_or :: "real option \<Rightarrow> real option \<Rightarrow> real option" where
  "py_or a b = (case a of None \<Rightarrow> b | Some x \<Rightarrow> if x = 0 then b else Some x)"

definition read_temperature :: "CPUMonitor \<Rightarrow> error + sensor_table \<Rightarrow> real option" where
  "read_temperature m r =
     (case r of
        Inl e \<Rightarrow> None
      | Inr temps \<Rightarrow>
          (case sensor_key m of
             None \<Rightarrow> None
           | Some key \<Rightarrow>
               if key = [] then None
               else (case temps key of
                       None \<Rightarrow> None
                     | Some entries \<Rightarrow>
                         (let match = map_option current (find label_matches entries)
                          in py_or match
                               (case entries of [] \<Rightarrow> None | e # es \<Rightarrow> Some (current e))))))"

record tick_result =
  mon :: CPUMonitor
  calls :: "call list"
  logged :: "string option"

definition log_line :: "error \<Rightarrow> string" where
  "log_line e = ''[red]Error during sampling: '' @ error_str e @ ''[/red]''"

definition sample :: "CPUMonitor \<Rightarrow> tick_env \<Rightarrow> tick_result" where
  "sample m env =
     (let m1 = m\<lparr>timestamps := deque_append (timestamps m) (now_str env)\<rparr>
      in case cpu_percent env of
           Inl e \<Rightarrow> \<lparr>mon = m1, calls = [Call_cpu_percent], logged = Some (log_line e)\<rparr>
         | Inr c \<Rightarrow>
      (let m2 = m1\<lparr>cpu_samples := deque_append (cpu_samples m1) c\<rparr>
       in case cpu_freq env of
            Inl e \<Rightarrow> \<lparr>mon = m2, calls = [Call_cpu_percent, Call_cpu_freq],
                       logged = Some (log_line e)\<rparr>
          | Inr f \<Rightarrow>
      (let m3 = m2\<lparr>freq_samples := deque_append (freq_samples m2)
                       (case f of Some q \<Rightarrow> freq_current q | None \<Rightarrow> 0)\<rparr>
       in case getloadavg env of
            Inl e \<Rightarrow> \<lparr>mon = m3, calls = [Call_cpu_percent, Call_cpu_freq, Call_getloadavg],
                       logged = Some (log_line e)\<rparr>
          | Inr l \<Rightarrow>
      (let m4 = m3\<lparr>load_samples := deque_append (load_samples m3) l\<rparr>;
           now_ts = time_now env
       in if now_ts - last_temp_time m4 \<ge> temp_sample_interval_sec SETTINGS
          then (let temp = read_temperature m4 (sensors_temperatures env);
                    m5 = (case temp of
                            Some t \<Rightarrow> m4\<lparr>temp_samples := deque_append (temp_samples m4) t\<rparr>
                          | None \<Rightarrow> m4)
                in \<lparr>mon = m5\<lparr>last_temp_time := now_ts\<rparr>,
                    calls = [Call_cpu_percent, Call_cpu_freq, Call_getloadavg,
                             Call_sensors_temperatures],
                    logged = None\<rparr>)
          else \<lparr>mon = m4, calls = [Call_cpu_percent, Call_cpu_freq, Call_getloadavg],
                logged = None\<rparr>))))"

text \<open>
  The loop of \<open>run\<close> calls \<open>sample\<close> once per iteration for as long as the running flag,
  which another thread clears, is set. The environments of the iterations that took
  place are the list \<open>envs\<close>.
\<close>

fun ticks :: "CPUMonitor \<Rightarrow> tick_env list \<Rightarrow> CPUMonitor" where
  "ticks m [] = m"
| "ticks m (env # envs) = ticks (mon (sample m env)) envs"

definition run :: "CPUMonitor \<Rightarrow> error + sensor_table \<Rightarrow> tick_env list \<Rightarrow> CPUMonitor" where
  "run m temps0 envs = ticks (m\<lparr>sensor_key := detect_sensor_key temps0\<rparr>) envs"

definition stop :: "CPUMonitor \<Rightarrow> real \<Rightarrow> CPUMonitor" where
  "stop m now = m\<lparr>running := False, end_time := Some now\<rparr>"

subsection \<open>The window average\<close>

definition mean :: "real list \<Rightarrow> error + real" where
  "mean xs = (if xs = [] then Inl StatisticsError else Inr (sum_list xs / real (length xs)))"

definition avg :: "real deque \<Rightarrow> error + real" where
  "avg d = (if items d \<noteq> [] then mean (items d) else Inr 0)"

subsection \<open>The CSV export\<close>

datatype cell = IntCell int | StrCell string | FloatCell real

definition csv_header :: "cell list" where
  "csv_header =
     [StrCell ''Sample #'', StrCell ''Timestamp'', StrCell ''CPU Usage (%)'',
      StrCell (''Temperature ('' @ [CHR 0xC2, CHR 0xB0] @ ''C)''),
      StrCell ''Frequency (MHz)'', StrCell ''Load1'', StrCell ''Load5'', StrCell ''Load15'']"

definition csv_row :: "(real \<Rightarrow> string) \<Rightarrow> CPUMonitor \<Rightarrow> nat \<Rightarrow> cell list" where
  "csv_row fmt1 m i =
     (let ts = (if i < length (items (timestamps m)) then items (timestamps m) ! i else []);
          cpu = (if i < length (items (cpu_samples m))
                 then fmt1 (items (cpu_samples m) ! i) else []);
          temp = (if i < length (items (temp_samples m))
                  then fmt1 (items (temp_samples m) ! i) else ''N/A'');
          freq = (if i < length (items (freq_samples m))
                  then fmt1 (items (freq_samples m) ! i) else []);
          load = (if i < length (items (load_samples m))
                  then (case items (load_samples m) ! i of
                          (l1, l5, l15) \<Rightarrow> [FloatCell l1, FloatCell l5, FloatCell l15])
                  else [StrCell [], StrCell [], StrCell []])
      in [IntCell (int i + 1), StrCell ts, StrCell cpu, StrCell temp, StrCell freq,
          load ! 0, load ! 1, load ! 2])"

definition csv_rows :: "(real \<Rightarrow> string) \<Rightarrow> CPUMonitor \<Rightarrow> cell list list" where
  "csv_rows fmt1 m = map (csv_row fmt1 m) [0 ..< length (items (cpu_samples m))]"

definition csv_file :: "(real \<Rightarrow> string) \<Rightarrow> CPUMonitor \<Rightarrow> cell list list" where
  "csv_file fmt1 m = csv_header # csv_rows fmt1 m"

subsection \<open>Vocabulary of the properties\<close>

text \<open>The last \<open>n\<close> elements of a list, in their order.\<close>

definition lastn :: "nat \<Rightarrow> 'a list \<Rightarrow> 'a list" where
  "lastn n xs = drop (length xs - n) xs"

text \<open>The values of the CPU-percent reads that succeeded, tick after tick.\<close>

fun cpu_reads :: "tick_env list \<Rightarrow> real list" where
  "cpu_reads [] = []"
| "cpu_reads (env # envs) =
     (case cpu_percent env of
        Inl e \<Rightarrow> cpu_reads envs
      | Inr c \<Rightarrow> c # cpu_reads envs)"

text \<open>A tick in which the CPU, frequency and load reads raise nothing.\<close>

definition reads_ok :: "tick_env \<Rightarrow> bool" where
  "reads_ok env =
     ((case cpu_percent env of Inl e \<Rightarrow> False | Inr c \<Rightarrow> True) \<and>
      (case cpu_freq env of Inl e \<Rightarrow> False | Inr f \<Rightarrow> True) \<and>
      (case getloadavg env of Inl e \<Rightarrow> False | Inr l \<Rightarrow> True))"

text \<open>The element that a tick appends to the frequency window.\<close>

definition freq_value :: "scpufreq option \<Rightarrow> real" where
  "freq_value f = (case f of Some q \<Rightarrow> freq_current q | None \<Rightarrow> 0)"

text \<open>Whether the temperature read is due at a tick.\<close>

definition temp_due :: "CPUMonitor \<Rightarrow> tick_env \<Rightarrow> bool" where
  "temp_due m env = (time_now env - last_temp_time m \<ge> temp_sample_interval_sec SETTINGS)"

subsection \<open>Concrete ticks and sensor tables\<close>

definition package_table :: sensor_table where
  "package_table = [''coretemp'' \<mapsto> [\<lparr>label = ''Package id 0'', current = 45\<rparr>]]"

definition env_ok :: tick_env where
  "env_ok =
     \<lparr>now_str = ''2024-01-01 00:00:00'',
      cpu_percent = Inr 12.5,
      cpu_freq = Inr None,
      getloadavg = Inr (0.5, 0.4, 0.3),
      time_now = 100,
      sensors_temperatures = Inr package_table\<rparr>"

definition env_cpu_fails :: tick_env where
  "env_cpu_fails = env_ok\<lparr>cpu_percent := Inl (PlatformError ''cpu_percent failed'')\<rparr>"

definition env_sensors_fail :: tick_env where
  "env_sensors_fail = env_ok\<lparr>sensors_temperatures := Inl (PlatformError ''no sensors'')\<rparr>"

definition monitor0 :: CPUMonitor where
  "monitor0 = (init 0)\<lparr>sensor_key := Some ''coretemp''\<rparr>"

text \<open>A sensor group whose package entry reads exactly zero degrees.\<close>

definition zero_package_table :: sensor_table where
  "zero_package_table =
     [''coretemp'' \<mapsto> [\<lparr>label = ''temp1'', current = 42\<rparr>,
                        \<lparr>label = ''Package id 0'', current = 0\<rparr>]]"

text \<open>A final state with five CPU samples and two temperature samples.\<close>

definition export_state :: CPUMonitor where
  "export_state =
     (init 0)\<lparr>cpu_samples := \<lparr>maxlen = 20, items = [1, 2, 3, 4, 5]\<rparr>,
              temp_samples := \<lparr>maxlen = 5, items = [40, 41]\<rparr>,
              freq_samples := \<lparr>maxlen = 20, items = [800, 900, 1000]\<rparr>,
              load_samples := \<lparr>maxlen = 20, items = [(0.1, 0.2, 0.3)]\<rparr>,
              timestamps := \<lparr>maxlen = 20, items = [''t1'', ''t2'', ''t3'', ''t4'', ''t5'']\<rparr>\<rparr>"

section \<open>Properties\<close>

subsection \<open>Capacities\<close>

lemma cpu_capacity: "window_capacity (sample_interval_sec SETTINGS) = 20"
  by (simp add: window_capacity_def SETTINGS_def py_int_def)

lemma temp_capacity: "window_capacity (temp_sample_interval_sec SETTINGS) = 5"
  by (simp add: window_capacity_def SETTINGS_def py_int_def)

subsection \<open>The threshold classifier\<close>

text \<open>
  Claim C5. With \<open>warn < crit\<close>, \<open>colorize\<close> picks exactly one of three colours with
  inclusive lower bounds: red (critical) iff \<open>val \<ge> crit\<close>, yellow (warn) iff
  \<open>warn \<le> val < crit\<close>, green (normal) iff \<open>val < warn\<close>. In particular the value
  \<open>crit\<close> is red and the value \<open>warn\<close> is yellow.
\<close>

theorem colorize_bands:
  assumes "warn < crit"
  shows "((colorize fmt1 v warn crit u = ''[red]'' @ fmt1 v @ u @ ''[/red]'') = (crit \<le> v)) \<and>
         ((colorize fmt1 v warn crit u = ''[yellow]'' @ fmt1 v @ u @ ''[/yellow]'')
            = (warn \<le> v \<and> v < crit)) \<and>
         ((colorize fmt1 v warn crit u = ''[green]'' @ fmt1 v @ u @ ''[/green]'') = (v < warn)) \<and>
         colorize fmt1 crit warn crit u = ''[red]'' @ fmt1 crit @ u @ ''[/red]'' \<and>
         colorize fmt1 warn warn crit u = ''[yellow]'' @ fmt1 warn @ u @ ''[/yellow]''"
  using assms by (auto simp: colorize_def)

theorem colorize_bands_witness:
  "(70::real) < 90 \<and>
   colorize (\<lambda>x. ''90.0'') 90 70 90 ''%'' = ''[red]90.0%[/red]'' \<and>
   colorize (\<lambda>x. ''70.0'') 70 70 90 ''%'' = ''[yellow]70.0%[/yellow]''"
  using colorize_bands [of 70 90 "\<lambda>x. ''90.0''" 90 "''%''"]
        colorize_bands [of 70 90 "\<lambda>x. ''70.0''" 70 "''%''"]
  by simp

subsection \<open>The window average\<close>

lemma mean_perm: "mset xs = mset ys \<Longrightarrow> mean xs = mean ys"
proof -
  assume eq: "mset xs = mset ys"
  have "sum_list xs = sum_mset (mset xs)" by (simp add: sum_mset_sum_list)
  also have "\<dots> = sum_list ys" using eq by (simp add: sum_mset_sum_list)
  finally have s: "sum_list xs = sum_list ys" .
  have l: "length xs = length ys" using eq by (rule mset_eq_length)
  have e: "(xs = []) = (ys = [])" using l by auto
  show ?thesis using s l e by (simp add: mean_def)
qed

text \<open>
  Claim C9. \<open>avg\<close> returns 0 on the empty window and \<open>x\<close> on the window \<open>[x]\<close>; it
  returns a number on every window (the error of \<open>mean\<close> on empty data is never
  reached); and two windows with the same elements in any order have the same average.
\<close>

theorem avg_props:
  "avg \<lparr>maxlen = n, items = []\<rparr> = Inr 0 \<and>
   avg \<lparr>maxlen = n, items = [x]\<rparr> = Inr x \<and>
   (\<exists>v. avg d = Inr v) \<and>
   (mset (items d) = mset (items d') \<longrightarrow> avg d = avg d')"
proof -
  have p: "mset (items d) = mset (items d') \<Longrightarrow> avg d = avg d'"
  proof -
    assume eq: "mset (items d) = mset (items d')"
    have "(items d = []) = (items d' = [])" using mset_eq_length [OF eq] by auto
    then show ?thesis using mean_perm [OF eq] by (simp add: avg_def)
  qed
  show ?thesis using p by (simp add: avg_def mean_def)
qed

theorem avg_props_witness:
  "mset [50, 75, 95, 60 :: real] = mset [60, 95, 75, 50] \<and>
   avg \<lparr>maxlen = 4, items = [50, 75, 95, 60]\<rparr> = avg \<lparr>maxlen = 4, items = [60, 95, 75, 50]\<rparr> \<and>
   avg \<lparr>maxlen = 4, items = [50, 75, 95, 60]\<rparr> = Inr 70"
proof -
  have m: "mset [50, 75, 95, 60 :: real] = mset [60, 95, 75, 50]" by (simp add: add_mset_commute)
  have "avg \<lparr>maxlen = 4, items = [50, 75, 95, 60]\<rparr> = avg \<lparr>maxlen = 4, items = [60, 95, 75, 50]\<rparr>"
    using avg_props [of 4 0 "\<lparr>maxlen = 4, items = [50, 75, 95, 60]\<rparr>"
                        "\<lparr>maxlen = 4, items = [60, 95, 75, 50]\<rparr>"] m
    by simp
  moreover have "avg \<lparr>maxlen = 4, items = [50, 75, 95, 60]\<rparr> = Inr 70"
    by (simp add: avg_def mean_def)
  ultimately show ?thesis using m by simp
qed

subsection \<open>Stopping\<close>

text \<open>
  Claim C3, as stated, fails: \<open>stop\<close> has no guard, so a second call replaces the end
  time recorded by the first. Stopping at time 1 and again at time 2 leaves end time 2.
\<close>

theorem stop_twice_counterexample:
  "end_time (stop (init 0) 1) = Some 1 \<and>
   end_time (stop (stop (init 0) 1) 2) = Some 2 \<and>
   stop (stop (init 0) 1) 2 \<noteq> stop (init 0) 1"
  by (simp add: stop_def init_def)

text \<open>
  Claim C3, amended. Every call of \<open>stop\<close> clears the running flag and sets the end time
  to the time of that call. After two calls the flag is still cleared and the end time
  is that of the second call: the state is the one a single call at the second time
  gives, and it equals the state after the first call exactly when the two times agree.
\<close>

theorem stop_overwrites_end_time:
  "running (stop m t) = False \<and> end_time (stop m t) = Some t \<and>
   running (stop (stop m t1) t2) = False \<and> end_time (stop (stop m t1) t2) = Some t2 \<and>
   stop (stop m t1) t2 = stop m t2 \<and>
   ((stop (stop m t1) t2 = stop m t1) = (t2 = t1))"
  by (auto simp: stop_def dest: arg_cong [where f = end_time])

subsection \<open>Bounded windows\<close>

lemma length_lastn: "length (lastn n xs) = min n (length xs)"
  by (simp add: lastn_def)

lemma lastn_all: "length xs \<le> n \<Longrightarrow> lastn n xs = xs"
  by (simp add: lastn_def)

lemma lastn_lastn_append: "lastn n (lastn n xs @ ys) = lastn n (xs @ ys)"
proof (cases "length xs \<le> n")
  case True
  then show ?thesis by (simp add: lastn_all)
next
  case False
  then show ?thesis by (simp add: lastn_def add.commute)
qed

lemma deque_append_maxlen: "maxlen (deque_append d x) = maxlen d"
  by (simp add: deque_append_def Let_def)

lemma deque_append_items:
  assumes "length (items d) \<le> maxlen d"
  shows "items (deque_append d x) = lastn (maxlen d) (items d @ [x])"
proof (cases "length (items d) < maxlen d")
  case True
  then show ?thesis by (simp add: deque_append_def Let_def lastn_def)
next
  case False
  with assms have eq: "length (items d) = maxlen d" by simp
  have "drop 1 ys = tl ys" for ys :: "'a list" by (simp add: drop_Suc)
  then have "tl (items d @ [x]) = drop 1 (items d @ [x])" by (rule sym)
  then show ?thesis using eq by (simp add: deque_append_def Let_def lastn_def del: tl_append2)
qed

lemma deque_append_bounded:
  "length (items d) \<le> maxlen d \<Longrightarrow> length (items (deque_append d x)) \<le> maxlen d"
  by (simp add: deque_append_items length_lastn)

lemma deque_append_length:
  "length (items d) \<le> maxlen d \<Longrightarrow>
   length (items (deque_append d x)) = min (maxlen d) (Suc (length (items d)))"
  by (simp add: deque_append_items length_lastn)

subsection \<open>What one tick does to each window\<close>

lemma sample_timestamps:
  "timestamps (mon (sample m env)) = deque_append (timestamps m) (now_str env)"
  by (simp add: sample_def Let_def split: sum.splits option.splits)

lemma sample_cpu_samples:
  "cpu_samples (mon (sample m env)) =
     (case cpu_percent env of
        Inl e \<Rightarrow> cpu_samples m
      | Inr c \<Rightarrow> deque_append (cpu_samples m) c)"
  by (simp add: sample_def Let_def split: sum.splits option.splits)

lemma ticks_timestamps:
  "length (items (timestamps m)) \<le> maxlen (timestamps m) \<Longrightarrow>
   maxlen (timestamps (ticks m envs)) = maxlen (timestamps m) \<and>
   items (timestamps (ticks m envs)) =
     lastn (maxlen (timestamps m)) (items (timestamps m) @ map now_str envs)"
proof (induction envs arbitrary: m)
  case Nil
  then show ?case by (simp add: lastn_all)
next
  case (Cons env envs)
  let ?d = "deque_append (timestamps m) (now_str env)"
  have b: "length (items ?d) \<le> maxlen ?d"
    using Cons.prems by (simp add: deque_append_bounded deque_append_maxlen)
  have "maxlen (timestamps (ticks (mon (sample m env)) envs)) = maxlen ?d \<and>
        items (timestamps (ticks (mon (sample m env)) envs)) =
          lastn (maxlen ?d) (items ?d @ map now_str envs)"
    using Cons.IH [of "mon (sample m env)"] b by (simp add: sample_timestamps)
  then show ?case
    using Cons.prems
    by (simp add: deque_append_maxlen deque_append_items lastn_lastn_append)
qed

lemma ticks_cpu_samples:
  "length (items (cpu_samples m)) \<le> maxlen (cpu_samples m) \<Longrightarrow>
   maxlen (cpu_samples (ticks m envs)) = maxlen (cpu_samples m) \<and>
   items (cpu_samples (ticks m envs)) =
     lastn (maxlen (cpu_samples m)) (items (cpu_samples m) @ cpu_reads envs)"
proof (induction envs arbitrary: m)
  case Nil
  then show ?case by (simp add: lastn_all)
next
  case (Cons env envs)
  show ?case
  proof (cases "cpu_percent env")
    case (Inl e)
    then have "cpu_samples (mon (sample m env)) = cpu_samples m"
      by (simp add: sample_cpu_samples)
    then show ?thesis using Cons.IH [of "mon (sample m env)"] Cons.prems Inl by simp
  next
    case (Inr c)
    let ?d = "deque_append (cpu_samples m) c"
    have s: "cpu_samples (mon (sample m env)) = ?d"
      using Inr by (simp add: sample_cpu_samples)
    have b: "length (items ?d) \<le> maxlen ?d"
      using Cons.prems by (simp add: deque_append_bounded deque_append_maxlen)
    have "maxlen (cpu_samples (ticks (mon (sample m env)) envs)) = maxlen ?d \<and>
          items (cpu_samples (ticks (mon (sample m env)) envs)) =
            lastn (maxlen ?d) (items ?d @ cpu_reads envs)"
      using Cons.IH [of "mon (sample m env)"] b s by simp
    then show ?thesis
      using Cons.prems Inr
      by (simp add: deque_append_maxlen deque_append_items lastn_lastn_append)
  qed
qed

subsection \<open>The CPU window\<close>

text \<open>
  Claim C1. The CPU window of a monitor is built with capacity
  \<open>int(window_duration_sec / sample_interval_sec)\<close>, which is 20, and the capacity never
  changes. After any run of ticks the window holds exactly the last \<open>min L 20\<close> of the
  \<open>L\<close> values read successfully, in the order they were read: beyond 20 values the
  oldest are dropped first. Its length never exceeds the capacity.
\<close>

theorem cpu_window_fifo:
  "maxlen (cpu_samples (run (init t0) temps0 envs)) =
     nat (py_int (window_duration_sec SETTINGS / sample_interval_sec SETTINGS)) \<and>
   maxlen (cpu_samples (run (init t0) temps0 envs)) = 20 \<and>
   items (cpu_samples (run (init t0) temps0 envs)) = lastn 20 (cpu_reads envs) \<and>
   items (cpu_samples (run (init t0) temps0 envs))
     = drop (length (cpu_reads envs) - 20) (cpu_reads envs) \<and>
   length (items (cpu_samples (run (init t0) temps0 envs))) = min (length (cpu_reads envs)) 20 \<and>
   length (items (cpu_samples (run (init t0) temps0 envs))) \<le> 20"
proof -
  let ?m = "(init t0)\<lparr>sensor_key := detect_sensor_key temps0\<rparr>"
  have c: "maxlen (cpu_samples ?m) = 20" and e: "items (cpu_samples ?m) = []"
    by (simp_all add: init_def deque_new_def cpu_capacity)
  have w: "nat (py_int (window_duration_sec SETTINGS / sample_interval_sec SETTINGS)) = 20"
    using cpu_capacity by (simp add: window_capacity_def)
  have t: "maxlen (cpu_samples (ticks ?m envs)) = 20 \<and>
        items (cpu_samples (ticks ?m envs)) = lastn 20 (cpu_reads envs)"
    using ticks_cpu_samples [of ?m envs] c e by simp
  have l: "length (lastn 20 (cpu_reads envs)) = min (length (cpu_reads envs)) 20"
    by (simp add: length_lastn min.commute)
  have d: "lastn 20 (cpu_reads envs) = drop (length (cpu_reads envs) - 20) (cpu_reads envs)"
    by (simp add: lastn_def)
  show ?thesis using w t l d by (simp add: run_def)
qed

theorem cpu_window_fifo_witness:
  "items (cpu_samples (run (init 0) (Inr package_table) [env_ok, env_cpu_fails, env_ok]))
     = [12.5, 12.5] \<and>
   cpu_reads [env_ok, env_cpu_fails, env_ok] = [12.5, 12.5]"
  using cpu_window_fifo [of 0 "Inr package_table" "[env_ok, env_cpu_fails, env_ok]"]
  by (simp add: env_ok_def env_cpu_fails_def lastn_def)

subsection \<open>The timestamp window\<close>

lemma cpu_reads_length: "length (cpu_reads envs) \<le> length envs"
  by (induction envs) (auto split: sum.splits)

lemma cpu_reads_all:
  "list_all (\<lambda>e. \<not> isl (cpu_percent e)) envs \<Longrightarrow> length (cpu_reads envs) = length envs"
  by (induction envs) (auto split: sum.splits)

text \<open>
  Claim C8, as stated, fails: the timestamp is appended before the CPU percentage is
  read, so a tick whose CPU read raises leaves one timestamp and no CPU sample. After
  one such tick the timestamp window has length 1 and the CPU window length 0.
\<close>

theorem timestamps_misaligned_counterexample:
  "length (items (timestamps (run (init 0) (Inr package_table) [env_cpu_fails]))) = 1 \<and>
   length (items (cpu_samples (run (init 0) (Inr package_table) [env_cpu_fails]))) = 0"
  by (simp add: run_def sample_timestamps sample_cpu_samples deque_append_def init_def
      deque_new_def cpu_capacity env_cpu_fails_def env_ok_def)

text \<open>
  Claim C8, amended. The timestamp window has the capacity of the CPU window (20) and
  receives exactly one entry per tick, whether or not the CPU read of that tick
  succeeds: after \<open>N\<close> ticks it holds the last \<open>min N 20\<close> capture times in order. The CPU
  window is never longer than the timestamp window, and the two have the same length
  when no CPU-percent read has failed.
\<close>

theorem timestamps_per_tick:
  "maxlen (timestamps (run (init t0) temps0 envs))
     = maxlen (cpu_samples (run (init t0) temps0 envs)) \<and>
   maxlen (timestamps (run (init t0) temps0 envs)) = 20 \<and>
   items (timestamps (run (init t0) temps0 envs)) = lastn 20 (map now_str envs) \<and>
   length (items (timestamps (run (init t0) temps0 envs))) = min (length envs) 20 \<and>
   length (items (cpu_samples (run (init t0) temps0 envs)))
     \<le> length (items (timestamps (run (init t0) temps0 envs))) \<and>
   (list_all (\<lambda>e. \<not> isl (cpu_percent e)) envs \<longrightarrow>
      length (items (cpu_samples (run (init t0) temps0 envs)))
        = length (items (timestamps (run (init t0) temps0 envs))))"
proof -
  let ?m = "(init t0)\<lparr>sensor_key := detect_sensor_key temps0\<rparr>"
  have c: "maxlen (cpu_samples ?m) = 20" "items (cpu_samples ?m) = []"
          "maxlen (timestamps ?m) = 20" "items (timestamps ?m) = []"
    by (simp_all add: init_def deque_new_def cpu_capacity)
  have t: "maxlen (timestamps (ticks ?m envs)) = 20 \<and>
           items (timestamps (ticks ?m envs)) = lastn 20 (map now_str envs)"
    using ticks_timestamps [of ?m envs] c by simp
  have u: "maxlen (cpu_samples (ticks ?m envs)) = 20 \<and>
           items (cpu_samples (ticks ?m envs)) = lastn 20 (cpu_reads envs)"
    using ticks_cpu_samples [of ?m envs] c by simp
  have lt: "length (items (timestamps (ticks ?m envs))) = min (length envs) 20"
    using t by (simp add: length_lastn min.commute)
  have lc: "length (items (cpu_samples (ticks ?m envs))) = min (length (cpu_reads envs)) 20"
    using u by (simp add: length_lastn min.commute)
  have le: "length (items (cpu_samples (ticks ?m envs)))
              \<le> length (items (timestamps (ticks ?m envs)))"
    using lt lc cpu_reads_length [of envs] by simp
  have eq: "list_all (\<lambda>e. \<not> isl (cpu_percent e)) envs \<Longrightarrow>
            length (items (cpu_samples (ticks ?m envs)))
              = length (items (timestamps (ticks ?m envs)))"
    using lt lc cpu_reads_all [of envs] by simp
  show ?thesis using t u lt le eq by (simp add: run_def)
qed

theorem timestamps_per_tick_witness:
  "list_all (\<lambda>e. \<not> isl (cpu_percent e)) [env_ok, env_ok] \<and>
   length (items (cpu_samples (run (init 0) (Inr package_table) [env_ok, env_ok]))) = 2 \<and>
   length (items (timestamps (run (init 0) (Inr package_table) [env_ok, env_ok]))) = 2"
proof -
  note T = timestamps_per_tick [of 0 "Inr package_table" "[env_ok, env_ok]"]
  have h: "list_all (\<lambda>e. \<not> isl (cpu_percent e)) [env_ok, env_ok]"
    by (simp add: env_ok_def)
  from T have "length (items (timestamps (run (init 0) (Inr package_table) [env_ok, env_ok])))
                 = min (length [env_ok, env_ok]) 20"
    by blast
  then have a: "length (items (timestamps (run (init 0) (Inr package_table) [env_ok, env_ok]))) = 2"
    by simp
  from T h have "length (items (cpu_samples (run (init 0) (Inr package_table) [env_ok, env_ok])))
      = length (items (timestamps (run (init 0) (Inr package_table) [env_ok, env_ok])))"
    by blast
  with a h show ?thesis by simp
qed

end
